theory Spec2Isabelle
  imports Main
begin

section \<open>Python strings and values\<close>

text \<open>
  The views of \<^verbatim>\<open>mama_cas/views.py\<close> work on strings, on the query dictionary of the
  request and on what \<^verbatim>\<open>json.loads\<close> returns. A Python value that can reach the views
  is one of the following; a dictionary is an association list read with \<open>map_of\<close>.
  JSON numbers are integers here: a float behaves as an integer does in every
  operation the views apply (truth value, membership test, subscript, concatenation).
\<close>

datatype pyval =
    PNone
  | PBool bool
  | PInt int
  | PStr string
  | PList "pyval list"
  | PDict "(string \<times> pyval) list"

datatype exn = TypeError | KeyError | AttributeError | ValueError | IndexError

text \<open>The truth value Python gives a value in \<^verbatim>\<open>if result:\<close>.\<close>

fun truthy :: "pyval \<Rightarrow> bool" where
  "truthy PNone = False"
| "truthy (PBool b) = b"
| "truthy (PInt i) = (i \<noteq> 0)"
| "truthy (PStr s) = (s \<noteq> [])"
| "truthy (PList xs) = (xs \<noteq> [])"
| "truthy (PDict d) = (d \<noteq> [])"

text \<open>\<^verbatim>\<open>s.startswith(p)\<close> and \<^verbatim>\<open>s.endswith(p)\<close>.\<close>

definition startswith :: "string \<Rightarrow> string \<Rightarrow> bool" where
  "startswith s p = (take (length p) s = p)"

definition endswith :: "string \<Rightarrow> string \<Rightarrow> bool" where
  "endswith s p = (length p \<le> length s \<and> drop (length s - length p) s = p)"

text \<open>\<^verbatim>\<open>sub in s\<close> on two strings: \<open>sub\<close> occurs in \<open>s\<close>.\<close>

fun contains :: "string \<Rightarrow> string \<Rightarrow> bool" where
  "contains [] sub = (sub = [])"
| "contains (c # cs) sub = (startswith (c # cs) sub \<or> contains cs sub)"

text \<open>
  \<^verbatim>\<open>s.split(sep)\<close> for a separator of one character: the pieces between the
  separators, one piece more than there are separators.
\<close>

fun split_acc :: "char \<Rightarrow> string \<Rightarrow> string \<Rightarrow> string list" where
  "split_acc sep acc [] = [rev acc]"
| "split_acc sep acc (c # cs) =
     (if c = sep then rev acc # split_acc sep [] cs else split_acc sep (c # acc) cs)"

definition split :: "string \<Rightarrow> char \<Rightarrow> string list" where
  "split s sep = split_acc sep [] s"

text \<open>\<^verbatim>\<open>key in v\<close> for a string \<open>key\<close>: a value that is not a container raises.\<close>

fun py_in :: "string \<Rightarrow> pyval \<Rightarrow> exn + bool" where
  "py_in k (PDict d) = Inr (map_of d k \<noteq> None)"
| "py_in k (PStr s) = Inr (contains s k)"
| "py_in k (PList xs) = Inr (PStr k \<in> set xs)"
| "py_in k _ = Inl TypeError"

text \<open>\<^verbatim>\<open>v[key]\<close> for a string \<open>key\<close>: only a dictionary can be read by a string.\<close>

fun getitem :: "pyval \<Rightarrow> string \<Rightarrow> exn + pyval" where
  "getitem (PDict d) k = (case map_of d k of None \<Rightarrow> Inl KeyError | Some v \<Rightarrow> Inr v)"
| "getitem _ k = Inl TypeError"

text \<open>\<^verbatim>\<open>'literal' + v\<close> and \<^verbatim>\<open>v + 'literal'\<close>: \<open>v\<close> has to be a string.\<close>

fun str_add :: "string \<Rightarrow> pyval \<Rightarrow> exn + string" where
  "str_add s (PStr t) = Inr (s @ t)"
| "str_add s _ = Inl TypeError"

fun add_str :: "pyval \<Rightarrow> string \<Rightarrow> exn + string" where
  "add_str (PStr t) s = Inr (t @ s)"
| "add_str _ s = Inl TypeError"

section \<open>Requests, settings, responses\<close>

text \<open>
  \<^verbatim>\<open>request.GET\<close> is the query dictionary (\<^verbatim>\<open>request.GET.get(k)\<close> is \<open>None\<close> for an absent
  key), \<^verbatim>\<open>request.META['HTTP_HOST']\<close> the Host header of the request.
\<close>

record request =
  scheme :: string
  http_host :: string
  path :: string
  GET :: "(string \<times> string) list"

definition GET_get :: "request \<Rightarrow> string \<Rightarrow> string option" where
  "GET_get req k = map_of (GET req) k"

text \<open>\<^verbatim>\<open>getattr(settings, name, default)\<close> and \<^verbatim>\<open>getattr(settings, name)\<close>.\<close>

type_synonym settings = "(string \<times> string) list"

definition getattr :: "settings \<Rightarrow> string \<Rightarrow> string \<Rightarrow> string" where
  "getattr settings name dflt = (case map_of settings name of None \<Rightarrow> dflt | Some v \<Rightarrow> v)"

definition getattr_strict :: "settings \<Rightarrow> string \<Rightarrow> exn + string" where
  "getattr_strict settings name =
     (case map_of settings name of None \<Rightarrow> Inl AttributeError | Some v \<Rightarrow> Inr v)"

text \<open>
  What a view returns: \<^verbatim>\<open>HttpResponse(content=..., content_type=...)\<close>, the call
  \<^verbatim>\<open>redirect(to, params=...)\<close> of \<^verbatim>\<open>mama_cas.utils\<close> (no \<open>params\<close> is the empty list), or
  the login form that \<^verbatim>\<open>super(LoginView, self).get\<close> renders, with the message
  the view has queued for it, if any. The form without a message is the credential
  challenge. A view that raises returns no response: its result is the exception.
\<close>

datatype response =
    HttpResponse string string
  | Redirect string "(string \<times> string) list"
  | LoginForm "string option"

section \<open>Users, session and tickets\<close>

record user_rec =
  u_password :: string
  u_email :: pyval

record service_ticket =
  st_ticket :: string
  st_service :: string
  st_user :: string
  st_primary :: bool

text \<open>
  The state the views read and change: the identity store, the user the session of
  the request is signed on as (\<^verbatim>\<open>request.user\<close>; \<open>None\<close> is the anonymous user), the
  \<^verbatim>\<open>'warn'\<close> entry of the session (\<open>None\<close> when the key is absent) and the ticket store.
\<close>

record state =
  users :: "(string \<times> user_rec) list"
  auth_user :: "string option"
  session_warn :: "bool option"
  tickets :: "service_ticket list"

text \<open>
  \<^verbatim>\<open>django.contrib.auth.login(request, user)\<close>: the session is signed on as \<open>user\<close>. A
  session that is signed on as another user is flushed first, which drops its
  \<^verbatim>\<open>'warn'\<close> entry; the data of any other session are kept.
\<close>

definition login :: "state \<Rightarrow> string \<Rightarrow> state" where
  "login s u =
     (case auth_user s of
        None \<Rightarrow> s\<lparr>auth_user := Some u\<rparr>
      | Some v \<Rightarrow>
          if v = u then s\<lparr>auth_user := Some u\<rparr>
          else s\<lparr>auth_user := Some u, session_warn := None\<rparr>)"

text \<open>
  \<^verbatim>\<open>django.contrib.auth.authenticate(username=..., password=...)\<close>: the user when the
  identity store holds this password for the name, else \<open>None\<close>.
\<close>

definition authenticate :: "state \<Rightarrow> string \<Rightarrow> string \<Rightarrow> string option" where
  "authenticate s username password =
     (case map_of (users s) username of
        None \<Rightarrow> None
      | Some r \<Rightarrow> if u_password r = password then Some username else None)"

text \<open>
  Modelled from the spec: \<^verbatim>\<open>ServiceTicket.objects.create_ticket\<close> (\<^verbatim>\<open>mama_cas/models.py\<close>) is
  not among the sources. It stores a new ticket for the service and the user and returns
  it with its token. The token is the random string drawn for it, an input here.
  A ticket has \<open>primary = true\<close> only when it is created from the direct presentation
  of credentials, which \<^verbatim>\<open>form_valid\<close> states by passing \<^verbatim>\<open>primary=True\<close>; a call
  without the keyword, as the views make it for a ticket created from an existing
  single sign-on session, gives \<open>primary = false\<close>.
\<close>

definition default_primary :: bool where
  "default_primary = False"

definition create_ticket ::
  "string \<Rightarrow> state \<Rightarrow> string \<Rightarrow> string \<Rightarrow> bool option \<Rightarrow> service_ticket \<times> state" where
  "create_ticket rand s service user primary =
     (let st = \<lparr>st_ticket = rand, st_service = service, st_user = user,
                st_primary = (case primary of None \<Rightarrow> default_primary | Some p \<Rightarrow> p)\<rparr>
      in (st, s\<lparr>tickets := tickets s @ [st]\<rparr>))"

section \<open>LoginView\<close>

text \<open>
  The attributes \<^verbatim>\<open>LoginView.get\<close> sets on the view before it decides (lines 86 to 93):
  the scheme, the host, the path without a trailing \<^verbatim>\<open>login\<close>, and the service, which
  is \<^verbatim>\<open>MAMA_CAS_DEFAULT_SERVICE\<close> when the request has no \<^verbatim>\<open>service\<close> parameter.
\<close>

record view =
  v_scheme :: string
  v_http_host :: string
  v_path :: string
  v_service :: string

definition LoginView_attrs :: "settings \<Rightarrow> request \<Rightarrow> view" where
  "LoginView_attrs settings req =
     \<lparr>v_scheme = scheme req,
      v_http_host = http_host req,
      v_path = (if endswith (path req) ''login''
                then take (length (path req) - 5) (path req) else path req),
      v_service = (case GET_get req ''service'' of
                     None \<Rightarrow> getattr settings ''MAMA_CAS_DEFAULT_SERVICE'' ''''
                   | Some sv \<Rightarrow> sv)\<rparr>"

text \<open>\<^verbatim>\<open>LoginView.warn_user\<close>: \<^verbatim>\<open>self.request.session.get('warn', False)\<close>.\<close>

definition warn_user :: "state \<Rightarrow> bool" where
  "warn_user s = (case session_warn s of None \<Rightarrow> False | Some w \<Rightarrow> w)"

text \<open>
  \<^verbatim>\<open>LoginView.get_context_data\<close>: the entries it adds to the context of the login
  page, among them the authorization URL of each provider. \<^verbatim>\<open>getattr\<close> has no default
  for \<^verbatim>\<open>MAMA_CAS_OAUTH_WECHAT_APP_ID\<close>.
\<close>

definition get_context_data :: "settings \<Rightarrow> view \<Rightarrow> exn + (string \<times> string) list" where
  "get_context_data settings v =
     (case getattr_strict settings ''MAMA_CAS_OAUTH_WECHAT_APP_ID'' of
        Inl e \<Rightarrow> Inl e
      | Inr wechat_app_id \<Rightarrow> Inr
         [(''oauth_weibo_meta_content'', getattr settings ''MAMA_CAS_OAUTH_WEIBO_META'' ''''),
          (''oauth_qq_meta_content'', getattr settings ''MAMA_CAS_OAUTH_QQ_META'' ''''),
          (''oauth_github_url'',
             ''https://github.com/login/oauth/authorize?client_id=''
             @ getattr settings ''MAMA_CAS_OAUTH_GITHUB_CLIENT_ID'' ''''
             @ ''&redirect_uri='' @ v_scheme v @ ''://'' @ v_http_host v @ v_path v
             @ ''oauth?v=github,'' @ v_service v),
          (''oauth_qq_url'',
             ''https://graph.qq.com/oauth2.0/authorize?client_id=''
             @ getattr settings ''MAMA_CAS_OAUTH_QQ_APP_ID'' ''''
             @ ''&redirect_uri='' @ v_scheme v @ ''://'' @ v_http_host v @ v_path v
             @ ''oauth?v=qq,'' @ v_service v
             @ ''&response_type=code&state='' @ getattr settings ''SECRET_KEY'' ''''),
          (''oauth_weibo_url'',
             ''https://api.weibo.com/oauth2/authorize?client_id=''
             @ getattr settings ''MAMA_CAS_OAUTH_WEIBO_APP_KEY'' ''''
             @ ''&redirect_uri='' @ v_scheme v @ ''://'' @ v_http_host v @ v_path v
             @ ''oauth?v=weibo,'' @ v_service v
             @ ''&response_type=code&scope=email''),
          (''oauth_wechat_url'',
             ''https://open.weixin.qq.com/connect/qrconnect?appid='' @ wechat_app_id
             @ ''&redirect_uri='' @ v_scheme v @ ''://'' @ v_http_host v @ v_path v
             @ ''oauth?v=wechat,'' @ v_service v
             @ ''&response_type=code&scope=snsapi_login#wechat_redirect'')])"

text \<open>
  The redirect URI of a provider inside its authorization URL: what stands between
  \<^verbatim>\<open>&redirect_uri=\<close> and the parameters that follow the service.
\<close>

definition login_redirect_uri :: "view \<Rightarrow> string \<Rightarrow> string" where
  "login_redirect_uri v tag =
     v_scheme v @ ''://'' @ v_http_host v @ v_path v @ ''oauth?v='' @ tag @ '','' @ v_service v"

text \<open>
  \<^verbatim>\<open>super(LoginView, self).get(request, ...)\<close>, the last line of \<^verbatim>\<open>LoginView.get\<close>: the
  form view renders the login page from the context that \<^verbatim>\<open>get_context_data\<close> builds,
  so an exception raised there leaves the view. \<open>msg\<close> is the message queued for
  the page, if any.
\<close>

definition render_login_form :: "settings \<Rightarrow> view \<Rightarrow> string option \<Rightarrow> exn + response" where
  "render_login_form settings v msg =
     (case get_context_data settings v of
        Inl e \<Rightarrow> Inl e
      | Inr data \<Rightarrow> Inr (LoginForm msg))"

text \<open>
  \<^verbatim>\<open>LoginView.get\<close>. \<open>to_bool\<close> is \<^verbatim>\<open>mama_cas.utils.to_bool\<close>, a parameter; \<open>rand\<close> is the
  token of the ticket, should the request create one.
\<close>

definition LoginView_get ::
  "(string option \<Rightarrow> bool) \<Rightarrow> settings \<Rightarrow> string \<Rightarrow> request \<Rightarrow> state
     \<Rightarrow> (exn + response) \<times> state" where
  "LoginView_get to_bool settings rand req s =
     (let view = LoginView_attrs settings req;
          service = v_service view;
          renew = to_bool (GET_get req ''renew'');
          gateway = to_bool (GET_get req ''gateway'')
      in
      if renew then (render_login_form settings view None, s)
      else if gateway \<and> service \<noteq> [] then
        (case auth_user s of
           Some u \<Rightarrow>
             (let (st, s') = create_ticket rand s service u None in
              if warn_user s'
              then (Inr (Redirect ''cas_warn''
                           [(''service'', service), (''ticket'', st_ticket st)]), s')
              else (Inr (Redirect service [(''ticket'', st_ticket st)]), s'))
         | None \<Rightarrow> (Inr (Redirect service []), s))
      else
        (case auth_user s of
           Some u \<Rightarrow>
             if service \<noteq> [] then
               (let (st, s') = create_ticket rand s service u None in
                if warn_user s'
                then (Inr (Redirect ''cas_warn''
                             [(''service'', service), (''ticket'', st_ticket st)]), s')
                else (Inr (Redirect service [(''ticket'', st_ticket st)]), s'))
             else (render_login_form settings view
                     (Some (''You are logged in as '' @ u)), s)
         | None \<Rightarrow> (render_login_form settings view None, s)))"

text \<open>
  \<^verbatim>\<open>LoginView.form_valid\<close>, which runs when the posted credentials have been accepted:
  \<open>form_user\<close> is \<^verbatim>\<open>form.user\<close>, \<open>form_warn\<close> is \<^verbatim>\<open>form.cleaned_data.get('warn')\<close>. The ticket is
  created for \<^verbatim>\<open>self.request.user\<close>, which \<^verbatim>\<open>login\<close> has just set, so the anonymous
  case of the lookup is never taken.
\<close>

record login_form =
  form_user :: string
  form_warn :: bool

definition form_valid ::
  "string \<Rightarrow> login_form \<Rightarrow> request \<Rightarrow> state \<Rightarrow> response \<times> state" where
  "form_valid rand form req s =
     (let s1 = login s (form_user form);
          s2 = (if form_warn form then s1\<lparr>session_warn := Some True\<rparr> else s1)
      in case GET_get req ''service'' of
           None \<Rightarrow> (Redirect ''cas_login'' [], s2)
         | Some service \<Rightarrow>
             if service \<noteq> [] then
               (case auth_user s2 of
                  None \<Rightarrow> (Redirect ''cas_login'' [], s2)
                | Some u \<Rightarrow>
                    (let (st, s3) = create_ticket rand s2 service u (Some True)
                     in (Redirect service [(''ticket'', st_ticket st)], s3)))
             else (Redirect ''cas_login'' [], s2))"

section \<open>ValidateView\<close>

text \<open>
  \<^verbatim>\<open>validate_service_ticket(service, ticket, pgturl, renew)\<close> of \<^verbatim>\<open>mama_cas.cas\<close> is a
  parameter: it returns the ticket (or \<open>None\<close>), the proxy-granting ticket and the error.
  \<^verbatim>\<open>st.user.get_username()\<close> is the \<open>st_user\<close> of the ticket.
\<close>

type_synonym validator =
  "string option \<Rightarrow> string option \<Rightarrow> string option \<Rightarrow> bool
     \<Rightarrow> service_ticket option \<times> string option \<times> string option"

definition ValidateView_get ::
  "(string option \<Rightarrow> bool) \<Rightarrow> validator \<Rightarrow> request \<Rightarrow> response" where
  "ValidateView_get to_bool validate_service_ticket req =
     (let service = GET_get req ''service'';
          ticket = GET_get req ''ticket'';
          renew = to_bool (GET_get req ''renew'');
          (st, pgt, error) = validate_service_ticket service ticket None renew;
          content = (case st of
                       Some t \<Rightarrow> ''yes'' @ [CHR 0x0A] @ st_user t @ [CHR 0x0A]
                     | None \<Rightarrow> ''no'' @ [CHR 0x0A, CHR 0x0A])
      in HttpResponse content ''text/plain'')"

section \<open>OAuthView\<close>

text \<open>
  The world outside: \<^verbatim>\<open>urllib2.urlopen\<close> with and without form data (\<open>None\<close> when
  encoding, opening or reading raises), \<^verbatim>\<open>json.loads\<close> (\<open>None\<close> when it raises
  \<^verbatim>\<open>ValueError\<close>) and \<^verbatim>\<open>pinyin.get_initial(x, delimiter='')\<close>.
\<close>

record net =
  urlopen_post :: "string \<Rightarrow> (string \<times> pyval) list \<Rightarrow> string option"
  urlopen_get :: "string \<Rightarrow> string option"
  json_loads :: "string \<Rightarrow> pyval option"
  get_initial :: "pyval \<Rightarrow> exn + string"

text \<open>
  \<^verbatim>\<open>__http_post\<close> and \<^verbatim>\<open>__http_get\<close>: \<open>None\<close> when the request fails, the decoded JSON
  when the body decodes, the body itself otherwise.
\<close>

definition http_post :: "net \<Rightarrow> string \<Rightarrow> (string \<times> pyval) list \<Rightarrow> pyval" where
  "http_post n url data =
     (case urlopen_post n url data of
        None \<Rightarrow> PNone
      | Some result \<Rightarrow> (case json_loads n result of Some v \<Rightarrow> v | None \<Rightarrow> PStr result))"

definition http_get :: "net \<Rightarrow> string \<Rightarrow> pyval" where
  "http_get n url =
     (case urlopen_get n url of
        None \<Rightarrow> PNone
      | Some html \<Rightarrow> (case json_loads n html of Some v \<Rightarrow> v | None \<Rightarrow> PStr html))"

text \<open>
  \<^verbatim>\<open>__sync_user\<close>: the user is created when the name is unknown; then the user is
  authenticated and signed on. \<^verbatim>\<open>authenticate\<close> returns \<open>None\<close> for a wrong password,
  \<^verbatim>\<open>login\<close> raises on it, and the \<^verbatim>\<open>except\<close> turns that into \<open>None\<close>.
\<close>

definition sync_user :: "state \<Rightarrow> string \<Rightarrow> string \<Rightarrow> pyval \<Rightarrow> string option \<times> state" where
  "sync_user s username password email =
     (let s1 = (case map_of (users s) username of
                  Some r \<Rightarrow> s
                | None \<Rightarrow> s\<lparr>users := users s @ [(username, \<lparr>u_password = password, u_email = email\<rparr>)]\<rparr>)
      in case authenticate s1 username password of
           Some user \<Rightarrow> (Some user, login s1 user)
         | None \<Rightarrow> (None, s1))"

text \<open>A step that may raise: the exception ends the view, with the state as it is.\<close>

definition attempt ::
  "exn + 'a \<Rightarrow> state \<Rightarrow> ('a \<Rightarrow> (exn + response) \<times> state) \<Rightarrow> (exn + response) \<times> state" where
  "attempt r s k = (case r of Inl e \<Rightarrow> (Inl e, s) | Inr x \<Rightarrow> k x)"

definition opt_str :: "string option \<Rightarrow> pyval" where
  "opt_str c = (case c of None \<Rightarrow> PNone | Some x \<Rightarrow> PStr x)"

text \<open>The last lines of \<^verbatim>\<open>do_github\<close> and its siblings, once the user name is known.\<close>

definition issue_and_redirect ::
  "string \<Rightarrow> response \<Rightarrow> string \<Rightarrow> string \<Rightarrow> string \<Rightarrow> pyval \<Rightarrow> state
     \<Rightarrow> (exn + response) \<times> state" where
  "issue_and_redirect rand failed service username password email s =
     (case sync_user s username password email of
        (Some user, s1) \<Rightarrow>
          (let (st, s2) = create_ticket rand s1 service user None
           in (Inr (Redirect service [(''ticket'', st_ticket st)]), s2))
      | (None, s1) \<Rightarrow> (Inr failed, s1))"

definition github_failed :: response where
  "github_failed = HttpResponse ''GitHub OAuth failed'' ''text/plain''"

definition github_token_data :: "settings \<Rightarrow> string option \<Rightarrow> (string \<times> pyval) list" where
  "github_token_data settings code =
     [(''grant_type'', PStr ''authorization_code''),
      (''client_id'', PStr (getattr settings ''MAMA_CAS_OAUTH_GITHUB_CLIENT_ID'' '''')),
      (''client_secret'', PStr (getattr settings ''MAMA_CAS_OAUTH_GITHUB_CLIENT_SECRET'' '''')),
      (''code'', opt_str code)]"

definition do_github ::
  "net \<Rightarrow> settings \<Rightarrow> string \<Rightarrow> string option \<Rightarrow> string \<Rightarrow> state
     \<Rightarrow> (exn + response) \<times> state" where
  "do_github n settings rand code service s =
     (let result = http_post n ''https://github.com/login/oauth/access_token''
                     (github_token_data settings code)
      in if truthy result then
           attempt (py_in ''access_token'' result) s (\<lambda>has_token.
             if has_token then
               attempt (getitem result ''access_token'') s (\<lambda>access_token.
               attempt (str_add ''https://api.github.com/user?access_token='' access_token) s (\<lambda>url.
               let data = http_get n url in
               attempt (getitem data ''login'') s (\<lambda>login_name.
               attempt (add_str login_name ''_github'') s (\<lambda>username.
               attempt (getitem data ''email'') s (\<lambda>email.
               issue_and_redirect rand github_failed service username
                 (getattr settings ''SECRET_KEY'' '''') email s)))))
             else (Inr github_failed, s))
         else (Inr github_failed, s))"

text \<open>\<^verbatim>\<open>v.split(sep)\<close> and \<^verbatim>\<open>v.startswith(p)\<close> on a value: only a string has the method.\<close>

fun py_split :: "pyval \<Rightarrow> char \<Rightarrow> exn + string list" where
  "py_split (PStr s) sep = Inr (split s sep)"
| "py_split _ sep = Inl AttributeError"

fun py_startswith :: "pyval \<Rightarrow> string \<Rightarrow> exn + bool" where
  "py_startswith (PStr s) p = Inr (startswith s p)"
| "py_startswith _ p = Inl AttributeError"

text \<open>\<^verbatim>\<open>data[10:-3]\<close> on a string.\<close>

definition slice_10_minus3 :: "string \<Rightarrow> string" where
  "slice_10_minus3 d = drop 10 (take (length d - 3) d)"

text \<open>
  The loop of \<^verbatim>\<open>do_qq\<close> over the pieces of the token response: the value of the first
  piece that starts with \<^verbatim>\<open>access_token=\<close>, the empty string when there is none.
\<close>

fun find_access_token :: "string list \<Rightarrow> exn + string" where
  "find_access_token [] = Inr []"
| "find_access_token (token # rest) =
     (if startswith token ''access_token=''
      then (case split token CHR ''='' of
              a # b # others \<Rightarrow> Inr b
            | _ \<Rightarrow> Inl IndexError)
      else find_access_token rest)"

definition qq_failed :: response where
  "qq_failed =
     HttpResponse
       (''QQ'' @ [CHR 0xE7, CHR 0x99, CHR 0xBB, CHR 0xE5, CHR 0xBD, CHR 0x95,
                 CHR 0xE5, CHR 0xA4, CHR 0xB1, CHR 0xE8, CHR 0xB4, CHR 0xA5] @ ''!'')
       ''text/plain''"

definition qq_token_data ::
  "settings \<Rightarrow> string option \<Rightarrow> string \<Rightarrow> string \<Rightarrow> (string \<times> pyval) list" where
  "qq_token_data settings code host service =
     [(''grant_type'', PStr ''authorization_code''),
      (''client_id'', PStr (getattr settings ''MAMA_CAS_OAUTH_QQ_APP_ID'' '''')),
      (''client_secret'', PStr (getattr settings ''MAMA_CAS_OAUTH_QQ_APP_KEY'' '''')),
      (''code'', opt_str code),
      (''redirect_uri'', PStr (''http://'' @ host @ ''/oauth?v=qq,'' @ service))]"

definition do_qq ::
  "net \<Rightarrow> settings \<Rightarrow> string \<Rightarrow> string option \<Rightarrow> string \<Rightarrow> string \<Rightarrow> state
     \<Rightarrow> (exn + response) \<times> state" where
  "do_qq n settings rand code host service s =
     (let result = http_post n ''https://graph.qq.com/oauth2.0/token''
                     (qq_token_data settings code host service)
      in if truthy result then
           attempt (py_split result CHR ''&'') s (\<lambda>pieces.
           attempt (find_access_token pieces) s (\<lambda>access_token.
           let data = http_get n (''https://graph.qq.com/oauth2.0/me?access_token='' @ access_token) in
           attempt (py_startswith data ''callback'') s (\<lambda>is_callback.
             if is_callback then
               attempt (case data of
                          PStr d \<Rightarrow> (case json_loads n (slice_10_minus3 d) of
                                       None \<Rightarrow> Inl ValueError
                                     | Some v \<Rightarrow> getitem v ''openid'')
                        | _ \<Rightarrow> Inl TypeError) s (\<lambda>openid.
               attempt (str_add (''https://graph.qq.com/user/get_user_info?access_token=''
                                 @ access_token @ ''&oauth_consumer_key=''
                                 @ getattr settings ''MAMA_CAS_OAUTH_QQ_APP_ID'' ''''
                                 @ ''&openid='') openid) s (\<lambda>url.
               let user_info = http_get n url in
               attempt (getitem user_info ''nickname'') s (\<lambda>nickname.
               attempt (get_initial n nickname) s (\<lambda>initials.
                 if initials \<noteq> [] then
                   (let username = initials @ ''_qq'' in
                    issue_and_redirect rand qq_failed service username
                      (getattr settings ''SECRET_KEY'' '''')
                      (PStr (username @ getattr settings ''MAMA_CAS_OAUTH_EMAIL'' '''')) s)
                 else (Inr qq_failed, s)))))
             else (Inr qq_failed, s))))
         else (Inr qq_failed, s))"

definition weibo_failed :: response where
  "weibo_failed = HttpResponse ''Weibo OAuth failed'' ''text/plain''"

definition weibo_token_data ::
  "settings \<Rightarrow> string option \<Rightarrow> string \<Rightarrow> string \<Rightarrow> (string \<times> pyval) list" where
  "weibo_token_data settings code host service =
     [(''grant_type'', PStr ''authorization_code''),
      (''client_id'', PStr (getattr settings ''MAMA_CAS_OAUTH_WEIBO_APP_KEY'' '''')),
      (''client_secret'', PStr (getattr settings ''MAMA_CAS_OAUTH_WEIBO_APP_SECRET'' '''')),
      (''code'', opt_str code),
      (''redirect_uri'', PStr (''http://'' @ host @ ''/oauth?v=weibo,'' @ service))]"

definition do_weibo ::
  "net \<Rightarrow> settings \<Rightarrow> string \<Rightarrow> string option \<Rightarrow> string \<Rightarrow> string \<Rightarrow> state
     \<Rightarrow> (exn + response) \<times> state" where
  "do_weibo n settings rand code host service s =
     (let result = http_post n ''https://api.weibo.com/oauth2/access_token''
                     (weibo_token_data settings code host service)
      in if truthy result then
           attempt (py_in ''access_token'' result) s (\<lambda>has_token.
             if has_token then
               attempt (getitem result ''access_token'') s (\<lambda>access_token.
               attempt (getitem result ''uid'') s (\<lambda>uid.
               attempt (str_add ''https://api.weibo.com/2/users/show.json?access_token='' access_token) s (\<lambda>u1.
               attempt (str_add (u1 @ ''&uid='') uid) s (\<lambda>url.
               let data = http_get n url in
               if truthy data then
                 attempt (getitem data ''profile_url'') s (\<lambda>profile_url.
                 attempt (add_str profile_url ''_weibo'') s (\<lambda>username.
                 issue_and_redirect rand weibo_failed service username
                   (getattr settings ''SECRET_KEY'' '''')
                   (PStr (username @ getattr settings ''MAMA_CAS_OAUTH_EMAIL'' '''')) s))
               else (Inr weibo_failed, s)))))
             else (Inr weibo_failed, s))
         else (Inr weibo_failed, s))"

definition wechat_failed :: response where
  "wechat_failed = HttpResponse ''WeChat OAuth failed'' ''text/plain''"

definition do_wechat ::
  "net \<Rightarrow> settings \<Rightarrow> string \<Rightarrow> string option \<Rightarrow> string \<Rightarrow> string \<Rightarrow> state
     \<Rightarrow> (exn + response) \<times> state" where
  "do_wechat n settings rand code host service s =
     attempt (getattr_strict settings ''MAMA_CAS_OAUTH_WECHAT_APP_SECRET'') s (\<lambda>secret.
     attempt (str_add (''https://api.weixin.qq.com/sns/oauth2/access_token?appid=''
                       @ getattr settings ''MAMA_CAS_OAUTH_WECHAT_APP_ID'' ''''
                       @ ''&secret='' @ secret @ ''&code='') (opt_str code)) s (\<lambda>u0.
     let data = http_get n (u0 @ ''&grant_type=authorization_code'') in
     if truthy data then
       attempt (getitem data ''access_token'') s (\<lambda>access_token.
       attempt (str_add ''https://api.weixin.qq.com/sns/userinfo?access_token='' access_token) s (\<lambda>u1.
       attempt (getitem data ''openid'') s (\<lambda>openid.
       attempt (str_add (u1 @ ''&openid='') openid) s (\<lambda>url.
       let data2 = http_get n url in
       if truthy data2 then
         attempt (getitem data2 ''nickname'') s (\<lambda>nickname.
         attempt (get_initial n nickname) s (\<lambda>initials.
         let username = initials @ ''_wechat'' in
         issue_and_redirect rand wechat_failed service username
           (getattr settings ''SECRET_KEY'' '''')
           (PStr (username @ getattr settings ''MAMA_CAS_OAUTH_EMAIL'' '''')) s))
       else (Inr wechat_failed, s)))))
     else (Inr wechat_failed, s)))"

text \<open>
  \<^verbatim>\<open>OAuthView.get\<close>: the parameter \<^verbatim>\<open>v\<close> is split at its commas into the provider and
  the service, and the provider's handler does the rest.
\<close>

definition oauth_entry_hint :: response where
  "oauth_entry_hint =
     HttpResponse
       ([CHR 0xE8, CHR 0xAF, CHR 0xB7, CHR 0xE4, CHR 0xBB, CHR 0x8E] @ ''web''
        @ [CHR 0xE5, CHR 0xBA, CHR 0x94, CHR 0xE7, CHR 0x94, CHR 0xA8, CHR 0xEF, CHR 0xBC, CHR 0x88,
           CHR 0xE4, CHR 0xBE, CHR 0x8B, CHR 0xE5, CHR 0xA6, CHR 0x82]
        @ ''https://bugs.isoft-linux.org/''
        @ [CHR 0xEF, CHR 0xBC, CHR 0x89, CHR 0xE7, CHR 0x99, CHR 0xBB, CHR 0xE5, CHR 0xBD, CHR 0x95,
           CHR 0xE5, CHR 0x85, CHR 0xA5, CHR 0xE5, CHR 0x8F, CHR 0xA3, CHR 0xE8, CHR 0xBF, CHR 0x9B,
           CHR 0xE8, CHR 0xA1, CHR 0x8C]
        @ ''CAS'')
       ''text/plain''"

definition OAuthView_get ::
  "net \<Rightarrow> settings \<Rightarrow> string \<Rightarrow> request \<Rightarrow> state \<Rightarrow> (exn + response) \<times> state" where
  "OAuthView_get n settings rand req s =
     (case GET_get req ''v'' of
        None \<Rightarrow> (Inr oauth_entry_hint, s)
      | Some v \<Rightarrow>
          if v \<noteq> [] then
            (case split v CHR '','' of
               [provider, service] \<Rightarrow>
                 if provider = ''github'' then
                   do_github n settings rand (GET_get req ''code'') service s
                 else if provider = ''qq'' then
                   do_qq n settings rand (GET_get req ''code'') (http_host req) service s
                 else if provider = ''weibo'' then
                   do_weibo n settings rand (GET_get req ''code'') (http_host req) service s
                 else if provider = ''wechat'' then
                   do_wechat n settings rand (GET_get req ''code'') (http_host req) service s
                 else (Inr oauth_entry_hint, s)
             | _ \<Rightarrow> (Inr oauth_entry_hint, s))
          else (Inr oauth_entry_hint, s))"

section \<open>Properties of the login and validation views\<close>

lemma create_ticket_eq:
  "create_ticket rand s service u p =
     (\<lparr>st_ticket = rand, st_service = service, st_user = u,
       st_primary = (case p of None \<Rightarrow> False | Some b \<Rightarrow> b)\<rparr>,
      s\<lparr>tickets := tickets s @ [\<lparr>st_ticket = rand, st_service = service, st_user = u,
       st_primary = (case p of None \<Rightarrow> False | Some b \<Rightarrow> b)\<rparr>]\<rparr>)"
  by (cases p) (simp_all add: create_ticket_def default_primary_def Let_def)

lemma warn_user_tickets: "warn_user (s\<lparr>tickets := ts\<rparr>) = warn_user s"
  by (simp add: warn_user_def)

lemma render_login_form_eq:
  "render_login_form settings v msg =
     (case map_of settings ''MAMA_CAS_OAUTH_WECHAT_APP_ID'' of
        None \<Rightarrow> Inl AttributeError
      | Some a \<Rightarrow> Inr (LoginForm msg))"
  by (simp add: render_login_form_def get_context_data_def getattr_strict_def
      split: option.splits)

lemma login_eq:
  "login s u =
     s\<lparr>auth_user := Some u,
       session_warn := (if auth_user s = None \<or> auth_user s = Some u
                        then session_warn s else None)\<rparr>"
  by (cases "auth_user s") (simp_all add: login_def)

text \<open>
  Claim C3. The body of the \<^verbatim>\<open>/validate\<close> response is \<^verbatim>\<open>yes\<close>, a newline, the user name
  of the ticket and a newline when the validation returns a ticket, and \<^verbatim>\<open>no\<close> and
  two newlines when it returns none, whatever the error is; the proxy-granting ticket
  and the error appear nowhere in the response, which is \<^verbatim>\<open>text/plain\<close>.
\<close>

theorem validate_plaintext:
  "(\<exists>t pgt err.
       vst (GET_get req ''service'') (GET_get req ''ticket'') None (to_bool (GET_get req ''renew''))
         = (Some t, pgt, err)
     \<and> ValidateView_get to_bool vst req
         = HttpResponse (''yes'' @ [CHR 0x0A] @ st_user t @ [CHR 0x0A]) ''text/plain'')
   \<or> (\<exists>pgt err.
       vst (GET_get req ''service'') (GET_get req ''ticket'') None (to_bool (GET_get req ''renew''))
         = (None, pgt, err)
     \<and> ValidateView_get to_bool vst req
         = HttpResponse (''no'' @ [CHR 0x0A, CHR 0x0A]) ''text/plain'')"
proof -
  obtain st pgt err where r:
    "vst (GET_get req ''service'') (GET_get req ''ticket'') None (to_bool (GET_get req ''renew''))
       = (st, pgt, err)"
    using prod_cases3 by blast
  show ?thesis
  proof (cases st)
    case None
    with r show ?thesis by (simp add: ValidateView_get_def)
  next
    case (Some t)
    with r show ?thesis by (simp add: ValidateView_get_def)
  qed
qed

text \<open>
  Claim C5. What the code does where the claim asks for the credential challenge on
  every request with \<^verbatim>\<open>renew\<close>: such a request never creates a ticket and is never
  redirected, whatever the session, the \<^verbatim>\<open>gateway\<close> parameter and the service are, and the
  state is unchanged; but it gets the challenge only when
  \<^verbatim>\<open>MAMA_CAS_OAUTH_WECHAT_APP_ID\<close> is configured. When it is not, \<^verbatim>\<open>get_context_data\<close>
  raises \<^verbatim>\<open>AttributeError\<close> while the form is rendered (line 68 has no default, where
  lines 63 to 67 and line 522 give one).
\<close>

theorem renew_challenges:
  assumes "to_bool (GET_get req ''renew'')"
  shows "LoginView_get to_bool settings rand req s =
           ((case map_of settings ''MAMA_CAS_OAUTH_WECHAT_APP_ID'' of
               None \<Rightarrow> Inl AttributeError
             | Some a \<Rightarrow> Inr (LoginForm None)), s)"
  using assms by (simp add: LoginView_get_def Let_def render_login_form_eq)

theorem renew_challenges_witness:
  "LoginView_get ((=) (Some ''true'')) [] ''ST-1''
        \<lparr>scheme = ''https'', http_host = ''cas.example.org'', path = ''/login'',
         GET = [(''service'', ''https://app.example/cb''), (''renew'', ''true'')]\<rparr>
        \<lparr>users = [], auth_user = Some ''alice'', session_warn = None, tickets = []\<rparr>
     = (Inl AttributeError,
        \<lparr>users = [], auth_user = Some ''alice'', session_warn = None, tickets = []\<rparr>)
   \<and> LoginView_get ((=) (Some ''true'')) [(''MAMA_CAS_OAUTH_WECHAT_APP_ID'', ''wx1'')] ''ST-1''
        \<lparr>scheme = ''https'', http_host = ''cas.example.org'', path = ''/login'',
         GET = [(''service'', ''https://app.example/cb''), (''renew'', ''true'')]\<rparr>
        \<lparr>users = [], auth_user = Some ''alice'', session_warn = None, tickets = []\<rparr>
     = (Inr (LoginForm None),
        \<lparr>users = [], auth_user = Some ''alice'', session_warn = None, tickets = []\<rparr>)"
proof -
  let ?req = "\<lparr>scheme = ''https'', http_host = ''cas.example.org'', path = ''/login'',
         GET = [(''service'', ''https://app.example/cb''), (''renew'', ''true'')]\<rparr>"
  have h: "(=) (Some ''true'') (GET_get ?req ''renew'')"
    by (simp add: GET_get_def)
  show ?thesis
    using renew_challenges [of "(=) (Some ''true'')" ?req "[]", OF h]
      renew_challenges [of "(=) (Some ''true'')" ?req
        "[(''MAMA_CAS_OAUTH_WECHAT_APP_ID'', ''wx1'')]", OF h]
    by simp
qed

text \<open>
  Claim C6. On the two paths of \<^verbatim>\<open>LoginView.get\<close> that issue a ticket from an existing
  session (no \<^verbatim>\<open>renew\<close>, a service, a signed-on user; with \<^verbatim>\<open>gateway\<close> or without), a
  session that carries the warn flag is redirected to \<^verbatim>\<open>cas_warn\<close> with the service and
  the new ticket as parameters, and not to the service with the ticket attached.
\<close>

theorem warn_interposes:
  assumes "\<not> to_bool (GET_get req ''renew'')"
    and "v_service (LoginView_attrs settings req) = service"
    and "service \<noteq> []"
    and "auth_user s = Some u"
    and "warn_user s"
  shows "LoginView_get to_bool settings rand req s =
           (Inr (Redirect ''cas_warn'' [(''service'', service), (''ticket'', rand)]),
            s\<lparr>tickets := tickets s @
                 [\<lparr>st_ticket = rand, st_service = service, st_user = u, st_primary = False\<rparr>]\<rparr>)
         \<and> fst (LoginView_get to_bool settings rand req s)
             \<noteq> Inr (Redirect service [(''ticket'', rand)])"
  using assms by (simp add: LoginView_get_def Let_def create_ticket_eq warn_user_tickets)

theorem warn_interposes_witness:
  "LoginView_get ((=) (Some ''true'')) [] ''ST-1''
        \<lparr>scheme = ''https'', http_host = ''cas.example.org'', path = ''/login'',
         GET = [(''service'', ''https://app.example/cb''), (''gateway'', ''true'')]\<rparr>
        \<lparr>users = [], auth_user = Some ''alice'', session_warn = Some True, tickets = []\<rparr>
     = (Inr (Redirect ''cas_warn''
               [(''service'', ''https://app.example/cb''), (''ticket'', ''ST-1'')]),
        \<lparr>users = [], auth_user = Some ''alice'', session_warn = Some True,
         tickets = [\<lparr>st_ticket = ''ST-1'', st_service = ''https://app.example/cb'',
                     st_user = ''alice'', st_primary = False\<rparr>]\<rparr>)
   \<and> LoginView_get ((=) (Some ''true'')) [] ''ST-1''
        \<lparr>scheme = ''https'', http_host = ''cas.example.org'', path = ''/login'',
         GET = [(''service'', ''https://app.example/cb'')]\<rparr>
        \<lparr>users = [], auth_user = Some ''alice'', session_warn = Some True, tickets = []\<rparr>
     = (Inr (Redirect ''cas_warn''
               [(''service'', ''https://app.example/cb''), (''ticket'', ''ST-1'')]),
        \<lparr>users = [], auth_user = Some ''alice'', session_warn = Some True,
         tickets = [\<lparr>st_ticket = ''ST-1'', st_service = ''https://app.example/cb'',
                     st_user = ''alice'', st_primary = False\<rparr>]\<rparr>)"
proof -
  let ?g = "\<lparr>scheme = ''https'', http_host = ''cas.example.org'', path = ''/login'',
         GET = [(''service'', ''https://app.example/cb''), (''gateway'', ''true'')]\<rparr>"
  let ?p = "\<lparr>scheme = ''https'', http_host = ''cas.example.org'', path = ''/login'',
         GET = [(''service'', ''https://app.example/cb'')]\<rparr>"
  let ?s = "\<lparr>users = [], auth_user = Some ''alice'', session_warn = Some True, tickets = []\<rparr>"
  have g1: "\<not> (=) (Some ''true'') (GET_get ?g ''renew'')"
    and p1: "\<not> (=) (Some ''true'') (GET_get ?p ''renew'')"
    by (simp_all add: GET_get_def)
  have g2: "v_service (LoginView_attrs [] ?g) = ''https://app.example/cb''"
    and p2: "v_service (LoginView_attrs [] ?p) = ''https://app.example/cb''"
    by (simp_all add: LoginView_attrs_def GET_get_def)
  have h3: "''https://app.example/cb'' \<noteq> []"
    by simp
  have h4: "auth_user ?s = Some ''alice''"
    by simp
  have h5: "warn_user ?s"
    by (simp add: warn_user_def)
  from warn_interposes [where to_bool = "(=) (Some ''true'')" and rand = "''ST-1''",
      OF g1 g2 h3 h4 h5]
    warn_interposes [where to_bool = "(=) (Some ''true'')" and rand = "''ST-1''",
      OF p1 p2 h3 h4 h5]
  show ?thesis
    by simp
qed

text \<open>
  Claim C7, as amended. \<^verbatim>\<open>form_valid\<close> with a service parameter that is not empty signs
  the session on as the user of the form, stores a ticket for that service and user
  with \<open>primary = true\<close>, and redirects to the service with the ticket; the warn flag is
  set on the session when the form asked for it. (When the form did not ask for it, the
  session keeps the flag it had, unless it was the session of another user.)
\<close>

theorem form_valid_issues_primary:
  assumes "GET_get req ''service'' = Some service" and "service \<noteq> []"
  shows "form_valid rand form req s =
           (Redirect service [(''ticket'', rand)],
            s\<lparr>auth_user := Some (form_user form),
              session_warn :=
                (if form_warn form then Some True
                 else if auth_user s = None \<or> auth_user s = Some (form_user form)
                      then session_warn s else None),
              tickets := tickets s @
                 [\<lparr>st_ticket = rand, st_service = service, st_user = form_user form,
                   st_primary = True\<rparr>]\<rparr>)"
  using assms by (simp add: form_valid_def Let_def create_ticket_eq login_eq)

theorem form_valid_issues_primary_witness:
  "form_valid ''ST-1'' \<lparr>form_user = ''alice'', form_warn = True\<rparr>
        \<lparr>scheme = ''https'', http_host = ''cas.example.org'', path = ''/login'',
         GET = [(''service'', ''https://app.example/cb'')]\<rparr>
        \<lparr>users = [], auth_user = None, session_warn = None, tickets = []\<rparr>
     = (Redirect ''https://app.example/cb'' [(''ticket'', ''ST-1'')],
        \<lparr>users = [], auth_user = Some ''alice'', session_warn = Some True,
         tickets = [\<lparr>st_ticket = ''ST-1'', st_service = ''https://app.example/cb'',
                     st_user = ''alice'', st_primary = True\<rparr>]\<rparr>)
   \<and> form_valid ''ST-1'' \<lparr>form_user = ''alice'', form_warn = False\<rparr>
        \<lparr>scheme = ''https'', http_host = ''cas.example.org'', path = ''/login'',
         GET = [(''service'', ''https://app.example/cb'')]\<rparr>
        \<lparr>users = [], auth_user = Some ''bob'', session_warn = Some True, tickets = []\<rparr>
     = (Redirect ''https://app.example/cb'' [(''ticket'', ''ST-1'')],
        \<lparr>users = [], auth_user = Some ''alice'', session_warn = None,
         tickets = [\<lparr>st_ticket = ''ST-1'', st_service = ''https://app.example/cb'',
                     st_user = ''alice'', st_primary = True\<rparr>]\<rparr>)"
proof -
  let ?req = "\<lparr>scheme = ''https'', http_host = ''cas.example.org'', path = ''/login'',
         GET = [(''service'', ''https://app.example/cb'')]\<rparr>"
  have h1: "GET_get ?req ''service'' = Some ''https://app.example/cb''"
    by (simp add: GET_get_def)
  have h2: "''https://app.example/cb'' \<noteq> []"
    by simp
  from form_valid_issues_primary [OF h1 h2, of "''ST-1''"
      "\<lparr>form_user = ''alice'', form_warn = True\<rparr>"
      "\<lparr>users = [], auth_user = None, session_warn = None, tickets = []\<rparr>"]
    form_valid_issues_primary [OF h1 h2, of "''ST-1''"
      "\<lparr>form_user = ''alice'', form_warn = False\<rparr>"
      "\<lparr>users = [], auth_user = Some ''bob'', session_warn = Some True, tickets = []\<rparr>"]
  show ?thesis
    by simp
qed

text \<open>
  The claim as it was stated fails for a service parameter that is present and empty:
  \<^verbatim>\<open>if service:\<close> is false for it, no ticket is created and the redirect goes to
  \<^verbatim>\<open>cas_login\<close>.
\<close>

theorem form_valid_issues_primary_counterexample:
  "GET_get \<lparr>scheme = ''https'', http_host = ''cas.example.org'', path = ''/login'',
            GET = [(''service'', '''')]\<rparr> ''service'' = Some ''''
   \<and> form_valid ''ST-1'' \<lparr>form_user = ''alice'', form_warn = False\<rparr>
        \<lparr>scheme = ''https'', http_host = ''cas.example.org'', path = ''/login'',
         GET = [(''service'', '''')]\<rparr>
        \<lparr>users = [], auth_user = None, session_warn = None, tickets = []\<rparr>
     = (Redirect ''cas_login'' [],
        \<lparr>users = [], auth_user = Some ''alice'', session_warn = None, tickets = []\<rparr>)"
  by (simp add: form_valid_def Let_def GET_get_def login_def)

text \<open>
  Claim C4, as amended. A GET request to \<^verbatim>\<open>/login\<close> with \<^verbatim>\<open>gateway\<close> set, \<^verbatim>\<open>renew\<close> not set, a
  service parameter that is not empty and no signed-on user is redirected to the
  service with no parameter appended, and the state is unchanged: no ticket is created.
\<close>

theorem gateway_unauthenticated:
  assumes "\<not> to_bool (GET_get req ''renew'')"
    and "to_bool (GET_get req ''gateway'')"
    and "GET_get req ''service'' = Some service"
    and "service \<noteq> []"
    and "auth_user s = None"
  shows "LoginView_get to_bool settings rand req s = (Inr (Redirect service []), s)"
  using assms by (simp add: LoginView_get_def Let_def LoginView_attrs_def)

theorem gateway_unauthenticated_witness:
  "LoginView_get ((=) (Some ''true'')) [] ''ST-1''
        \<lparr>scheme = ''https'', http_host = ''cas.example.org'', path = ''/login'',
         GET = [(''service'', ''https://app.example/cb''), (''gateway'', ''true'')]\<rparr>
        \<lparr>users = [], auth_user = None, session_warn = None, tickets = []\<rparr>
     = (Inr (Redirect ''https://app.example/cb'' []),
        \<lparr>users = [], auth_user = None, session_warn = None, tickets = []\<rparr>)"
proof -
  let ?req = "\<lparr>scheme = ''https'', http_host = ''cas.example.org'', path = ''/login'',
         GET = [(''service'', ''https://app.example/cb''), (''gateway'', ''true'')]\<rparr>"
  let ?s = "\<lparr>users = [], auth_user = None, session_warn = None, tickets = []\<rparr>"
  have h1: "\<not> (=) (Some ''true'') (GET_get ?req ''renew'')"
    by (simp add: GET_get_def)
  have h2: "(=) (Some ''true'') (GET_get ?req ''gateway'')"
    by (simp add: GET_get_def)
  have h3: "GET_get ?req ''service'' = Some ''https://app.example/cb''"
    by (simp add: GET_get_def)
  have h4: "''https://app.example/cb'' \<noteq> []"
    by simp
  have h5: "auth_user ?s = None"
    by simp
  show ?thesis
    by (rule gateway_unauthenticated [where to_bool = "(=) (Some ''true'')", OF h1 h2 h3 h4 h5])
qed

text \<open>
  The claim as it was stated fails: with \<^verbatim>\<open>renew\<close> set as well, the request with
  \<^verbatim>\<open>gateway\<close>, a service and no signed-on user gets the credential challenge; and so does
  the request whose service parameter is the empty string. (Both runs are on a
  deployment with \<^verbatim>\<open>MAMA_CAS_OAUTH_WECHAT_APP_ID\<close> configured, where the form renders.)
\<close>

theorem gateway_unauthenticated_counterexample:
  "(=) (Some ''true'')
     (GET_get \<lparr>scheme = ''https'', http_host = ''cas.example.org'', path = ''/login'',
         GET = [(''service'', ''https://app.example/cb''), (''gateway'', ''true''),
                (''renew'', ''true'')]\<rparr> ''gateway'')
   \<and> GET_get \<lparr>scheme = ''https'', http_host = ''cas.example.org'', path = ''/login'',
         GET = [(''service'', ''https://app.example/cb''), (''gateway'', ''true''),
                (''renew'', ''true'')]\<rparr> ''service'' = Some ''https://app.example/cb''
   \<and> LoginView_get ((=) (Some ''true'')) [(''MAMA_CAS_OAUTH_WECHAT_APP_ID'', ''wx1'')] ''ST-1''
        \<lparr>scheme = ''https'', http_host = ''cas.example.org'', path = ''/login'',
         GET = [(''service'', ''https://app.example/cb''), (''gateway'', ''true''),
                (''renew'', ''true'')]\<rparr>
        \<lparr>users = [], auth_user = None, session_warn = None, tickets = []\<rparr>
     = (Inr (LoginForm None),
        \<lparr>users = [], auth_user = None, session_warn = None, tickets = []\<rparr>)
   \<and> LoginView_get ((=) (Some ''true'')) [(''MAMA_CAS_OAUTH_WECHAT_APP_ID'', ''wx1'')] ''ST-1''
        \<lparr>scheme = ''https'', http_host = ''cas.example.org'', path = ''/login'',
         GET = [(''service'', ''''), (''gateway'', ''true'')]\<rparr>
        \<lparr>users = [], auth_user = None, session_warn = None, tickets = []\<rparr>
     = (Inr (LoginForm None),
        \<lparr>users = [], auth_user = None, session_warn = None, tickets = []\<rparr>)"
  by (simp add: LoginView_get_def Let_def LoginView_attrs_def GET_get_def render_login_form_eq)




section \<open>Properties of the federated login\<close>

lemma sync_user_tickets: "sync_user s username password email = (r, s1) \<Longrightarrow> tickets s1 = tickets s"
  by (auto simp: sync_user_def Let_def login_eq split: option.splits)

lemma issue_and_redirect_cases:
  assumes "issue_and_redirect rand failed service username password email s = (r, s')"
  shows "(r = Inr failed \<and> tickets s' = tickets s)
       \<or> (r = Inr (Redirect service [(''ticket'', rand)])
          \<and> tickets s' = tickets s @
               [\<lparr>st_ticket = rand, st_service = service, st_user = username, st_primary = False\<rparr>])"
proof (cases "sync_user s username password email")
  case (Pair u s1)
  note t = sync_user_tickets [OF Pair]
  show ?thesis
  proof (cases u)
    case None
    with Pair assms t show ?thesis by (simp add: issue_and_redirect_def)
  next
    case (Some user)
    with Pair have "user = username"
      by (auto simp: sync_user_def Let_def authenticate_def split: option.splits if_splits)
    with Some Pair assms t show ?thesis
      by (auto simp: issue_and_redirect_def create_ticket_eq)
  qed
qed

lemma attempt_cases:
  assumes "attempt r s k = (res, s')"
  shows "(\<exists>e. r = Inl e \<and> res = Inl e \<and> s' = s) \<or> (\<exists>x. r = Inr x \<and> k x = (res, s'))"
  using assms by (cases r) (auto simp: attempt_def)

lemma do_github_outcome:
  assumes "do_github n settings rand code service s = (res, s')"
  shows "(tickets s' = tickets s \<and> ((\<exists>e. res = Inl e) \<or> res = Inr github_failed))
       \<or> (\<exists>u. res = Inr (Redirect service [(''ticket'', rand)])
          \<and> tickets s' = tickets s @
               [\<lparr>st_ticket = rand, st_service = service, st_user = u, st_primary = False\<rparr>])"
  using assms
  by (auto simp: do_github_def Let_def split: if_splits
      dest!: attempt_cases issue_and_redirect_cases)

lemma do_qq_outcome:
  assumes "do_qq n settings rand code host service s = (res, s')"
  shows "(tickets s' = tickets s \<and> ((\<exists>e. res = Inl e) \<or> res = Inr qq_failed))
       \<or> (\<exists>u. res = Inr (Redirect service [(''ticket'', rand)])
          \<and> tickets s' = tickets s @
               [\<lparr>st_ticket = rand, st_service = service, st_user = u, st_primary = False\<rparr>])"
  using assms
  by (auto simp: do_qq_def Let_def split: if_splits
      dest!: attempt_cases issue_and_redirect_cases)

lemma do_weibo_outcome:
  assumes "do_weibo n settings rand code host service s = (res, s')"
  shows "(tickets s' = tickets s \<and> ((\<exists>e. res = Inl e) \<or> res = Inr weibo_failed))
       \<or> (\<exists>u. res = Inr (Redirect service [(''ticket'', rand)])
          \<and> tickets s' = tickets s @
               [\<lparr>st_ticket = rand, st_service = service, st_user = u, st_primary = False\<rparr>])"
  using assms
  by (auto simp: do_weibo_def Let_def split: if_splits
      dest!: attempt_cases issue_and_redirect_cases)

lemma do_wechat_outcome:
  assumes "do_wechat n settings rand code host service s = (res, s')"
  shows "(tickets s' = tickets s \<and> ((\<exists>e. res = Inl e) \<or> res = Inr wechat_failed))
       \<or> (\<exists>u. res = Inr (Redirect service [(''ticket'', rand)])
          \<and> tickets s' = tickets s @
               [\<lparr>st_ticket = rand, st_service = service, st_user = u, st_primary = False\<rparr>])"
  using assms
  by (auto simp: do_wechat_def Let_def split: if_splits
      dest!: attempt_cases issue_and_redirect_cases)

lemma failed_not_redirect:
  "github_failed \<noteq> Redirect to ps" "qq_failed \<noteq> Redirect to ps"
  "weibo_failed \<noteq> Redirect to ps" "wechat_failed \<noteq> Redirect to ps"
  "oauth_entry_hint \<noteq> Redirect to ps"
  by (simp_all add: github_failed_def qq_failed_def weibo_failed_def wechat_failed_def
      oauth_entry_hint_def)

lemma OAuthView_get_outcome:
  assumes "OAuthView_get n settings rand req s = (res, s')"
  shows "(tickets s' = tickets s \<and> (\<forall>to ps. res \<noteq> Inr (Redirect to ps)))
       \<or> (\<exists>service u. res = Inr (Redirect service [(''ticket'', rand)])
          \<and> tickets s' = tickets s @
               [\<lparr>st_ticket = rand, st_service = service, st_user = u, st_primary = False\<rparr>])"
proof -
  have cases4:
    "res = Inr oauth_entry_hint \<and> s' = s
     \<or> (\<exists>service. do_github n settings rand (GET_get req ''code'') service s = (res, s'))
     \<or> (\<exists>service. do_qq n settings rand (GET_get req ''code'') (http_host req) service s = (res, s'))
     \<or> (\<exists>service. do_weibo n settings rand (GET_get req ''code'') (http_host req) service s = (res, s'))
     \<or> (\<exists>service. do_wechat n settings rand (GET_get req ''code'') (http_host req) service s = (res, s'))"
    using assms
    by (auto simp: OAuthView_get_def split: option.splits if_splits list.splits)
  then show ?thesis
    using failed_not_redirect
    by (elim disjE exE conjE)
       (auto dest!: do_github_outcome do_qq_outcome do_weibo_outcome do_wechat_outcome)
qed

text \<open>
  Claim C2. What the code does where the claim asks for a primary ticket: whenever the
  federated-login callback ends in a redirect, for any of the four providers, the
  redirect carries the new ticket, and that ticket has been stored with \<open>primary = false\<close>,
  since \<^verbatim>\<open>create_ticket\<close> is called without \<^verbatim>\<open>primary=True\<close>, which \<^verbatim>\<open>form_valid\<close> passes.
\<close>

theorem federated_ticket_not_primary:
  assumes "OAuthView_get n settings rand req s = (Inr (Redirect to ps), s')"
  shows "ps = [(''ticket'', rand)]
       \<and> (\<exists>u. tickets s' = tickets s @
               [\<lparr>st_ticket = rand, st_service = to, st_user = u, st_primary = False\<rparr>])"
  using OAuthView_get_outcome [OF assms] by auto

theorem federated_ticket_not_primary_witness:
  \<open>OAuthView_get
      \<lparr>urlopen_post = (\<lambda>url data. Some ''{"access_token": "gho_abc"}''),
       urlopen_get = map_of [(''https://api.github.com/user?access_token=gho_abc'',
                              ''{"login": "alice", "email": null}'')],
       json_loads = map_of
         [(''{"access_token": "gho_abc"}'', PDict [(''access_token'', PStr ''gho_abc'')]),
          (''{"login": "alice", "email": null}'',
           PDict [(''login'', PStr ''alice''), (''email'', PNone)])],
       get_initial = (\<lambda>v. add_str v [])\<rparr>
      [(''SECRET_KEY'', ''s3cret'')] ''ST-1''
      \<lparr>scheme = ''https'', http_host = ''cas.example.org'', path = ''/oauth'',
       GET = [(''v'', ''github,https://app.example/cb''), (''code'', ''c0de'')]\<rparr>
      \<lparr>users = [], auth_user = None, session_warn = None, tickets = []\<rparr>
    = (Inr (Redirect ''https://app.example/cb'' [(''ticket'', ''ST-1'')]),
       \<lparr>users = [(''alice_github'', \<lparr>u_password = ''s3cret'', u_email = PNone\<rparr>)],
        auth_user = Some ''alice_github'', session_warn = None,
        tickets = [\<lparr>st_ticket = ''ST-1'', st_service = ''https://app.example/cb'',
                    st_user = ''alice_github'', st_primary = False\<rparr>]\<rparr>)
   \<and> (\<exists>u. tickets
          \<lparr>users = [(''alice_github'', \<lparr>u_password = ''s3cret'', u_email = PNone\<rparr>)],
           auth_user = Some ''alice_github'', session_warn = None,
           tickets = [\<lparr>st_ticket = ''ST-1'', st_service = ''https://app.example/cb'',
                       st_user = ''alice_github'', st_primary = False\<rparr>]\<rparr>
        = tickets \<lparr>users = [], auth_user = None, session_warn = None, tickets = []\<rparr>
          @ [\<lparr>st_ticket = ''ST-1'', st_service = ''https://app.example/cb'', st_user = u,
              st_primary = False\<rparr>])\<close>
proof -
  have run: \<open>OAuthView_get
      \<lparr>urlopen_post = (\<lambda>url data. Some ''{"access_token": "gho_abc"}''),
       urlopen_get = map_of [(''https://api.github.com/user?access_token=gho_abc'',
                              ''{"login": "alice", "email": null}'')],
       json_loads = map_of
         [(''{"access_token": "gho_abc"}'', PDict [(''access_token'', PStr ''gho_abc'')]),
          (''{"login": "alice", "email": null}'',
           PDict [(''login'', PStr ''alice''), (''email'', PNone)])],
       get_initial = (\<lambda>v. add_str v [])\<rparr>
      [(''SECRET_KEY'', ''s3cret'')] ''ST-1''
      \<lparr>scheme = ''https'', http_host = ''cas.example.org'', path = ''/oauth'',
       GET = [(''v'', ''github,https://app.example/cb''), (''code'', ''c0de'')]\<rparr>
      \<lparr>users = [], auth_user = None, session_warn = None, tickets = []\<rparr>
    = (Inr (Redirect ''https://app.example/cb'' [(''ticket'', ''ST-1'')]),
       \<lparr>users = [(''alice_github'', \<lparr>u_password = ''s3cret'', u_email = PNone\<rparr>)],
        auth_user = Some ''alice_github'', session_warn = None,
        tickets = [\<lparr>st_ticket = ''ST-1'', st_service = ''https://app.example/cb'',
                    st_user = ''alice_github'', st_primary = False\<rparr>]\<rparr>)\<close>
    by (simp add: OAuthView_get_def GET_get_def split_def do_github_def http_post_def
        http_get_def github_token_data_def attempt_def getattr_def issue_and_redirect_def
        sync_user_def authenticate_def login_def create_ticket_eq Let_def)
  from federated_ticket_not_primary [OF run] run show ?thesis
    by blast
qed

text \<open>
  Claim C9. What the code does where the claim asks for the plain failure response: a
  failure of an adapter step after the token exchange leaves the view with an
  exception. In \<^verbatim>\<open>do_github\<close> the profile request fails (\<^verbatim>\<open>__http_get\<close> returns \<open>None\<close>) and
  \<^verbatim>\<open>data['login']\<close> raises \<^verbatim>\<open>TypeError\<close>; in \<^verbatim>\<open>do_qq\<close> the request for the open id fails and
  \<^verbatim>\<open>data.startswith\<close> raises \<^verbatim>\<open>AttributeError\<close>; in \<^verbatim>\<open>do_wechat\<close> the provider answers the token
  request with an error object and \<^verbatim>\<open>data['access_token']\<close> raises \<^verbatim>\<open>KeyError\<close>. No ticket is
  stored in any of the three runs.
\<close>

theorem oauth_adapter_failure_unhandled:
  \<open>OAuthView_get
      \<lparr>urlopen_post = (\<lambda>url data. Some ''{"access_token": "gho_abc"}''),
       urlopen_get = (\<lambda>url. None),
       json_loads = map_of
         [(''{"access_token": "gho_abc"}'', PDict [(''access_token'', PStr ''gho_abc'')])],
       get_initial = (\<lambda>v. add_str v [])\<rparr>
      [(''SECRET_KEY'', ''s3cret'')] ''ST-1''
      \<lparr>scheme = ''https'', http_host = ''cas.example.org'', path = ''/oauth'',
       GET = [(''v'', ''github,https://app.example/cb''), (''code'', ''c0de'')]\<rparr>
      \<lparr>users = [], auth_user = None, session_warn = None, tickets = []\<rparr>
    = (Inl TypeError, \<lparr>users = [], auth_user = None, session_warn = None, tickets = []\<rparr>)
   \<and> OAuthView_get
      \<lparr>urlopen_post = (\<lambda>url data. Some ''access_token=tok&expires_in=7776000''),
       urlopen_get = (\<lambda>url. None),
       json_loads = (\<lambda>body. None),
       get_initial = (\<lambda>v. add_str v [])\<rparr>
      [(''SECRET_KEY'', ''s3cret'')] ''ST-1''
      \<lparr>scheme = ''https'', http_host = ''cas.example.org'', path = ''/oauth'',
       GET = [(''v'', ''qq,https://app.example/cb''), (''code'', ''c0de'')]\<rparr>
      \<lparr>users = [], auth_user = None, session_warn = None, tickets = []\<rparr>
    = (Inl AttributeError, \<lparr>users = [], auth_user = None, session_warn = None, tickets = []\<rparr>)
   \<and> OAuthView_get
      \<lparr>urlopen_post = (\<lambda>url data. None),
       urlopen_get = (\<lambda>url. Some ''{"errcode": 40029, "errmsg": "invalid code"}''),
       json_loads = map_of
         [(''{"errcode": 40029, "errmsg": "invalid code"}'',
           PDict [(''errcode'', PInt 40029), (''errmsg'', PStr ''invalid code'')])],
       get_initial = (\<lambda>v. add_str v [])\<rparr>
      [(''SECRET_KEY'', ''s3cret''), (''MAMA_CAS_OAUTH_WECHAT_APP_ID'', ''wx1''),
       (''MAMA_CAS_OAUTH_WECHAT_APP_SECRET'', ''wxs3cret'')] ''ST-1''
      \<lparr>scheme = ''https'', http_host = ''cas.example.org'', path = ''/oauth'',
       GET = [(''v'', ''wechat,https://app.example/cb''), (''code'', ''c0de'')]\<rparr>
      \<lparr>users = [], auth_user = None, session_warn = None, tickets = []\<rparr>
    = (Inl KeyError, \<lparr>users = [], auth_user = None, session_warn = None, tickets = []\<rparr>)\<close>
proof (intro conjI)
  show \<open>OAuthView_get
      \<lparr>urlopen_post = (\<lambda>url data. Some ''{"access_token": "gho_abc"}''),
       urlopen_get = (\<lambda>url. None),
       json_loads = map_of
         [(''{"access_token": "gho_abc"}'', PDict [(''access_token'', PStr ''gho_abc'')])],
       get_initial = (\<lambda>v. add_str v [])\<rparr>
      [(''SECRET_KEY'', ''s3cret'')] ''ST-1''
      \<lparr>scheme = ''https'', http_host = ''cas.example.org'', path = ''/oauth'',
       GET = [(''v'', ''github,https://app.example/cb''), (''code'', ''c0de'')]\<rparr>
      \<lparr>users = [], auth_user = None, session_warn = None, tickets = []\<rparr>
    = (Inl TypeError, \<lparr>users = [], auth_user = None, session_warn = None, tickets = []\<rparr>)\<close>
    by (simp add: OAuthView_get_def GET_get_def split_def do_github_def http_post_def
        http_get_def github_token_data_def attempt_def getattr_def Let_def)
  show \<open>OAuthView_get
      \<lparr>urlopen_post = (\<lambda>url data. Some ''access_token=tok&expires_in=7776000''),
       urlopen_get = (\<lambda>url. None),
       json_loads = (\<lambda>body. None),
       get_initial = (\<lambda>v. add_str v [])\<rparr>
      [(''SECRET_KEY'', ''s3cret'')] ''ST-1''
      \<lparr>scheme = ''https'', http_host = ''cas.example.org'', path = ''/oauth'',
       GET = [(''v'', ''qq,https://app.example/cb''), (''code'', ''c0de'')]\<rparr>
      \<lparr>users = [], auth_user = None, session_warn = None, tickets = []\<rparr>
    = (Inl AttributeError, \<lparr>users = [], auth_user = None, session_warn = None, tickets = []\<rparr>)\<close>
    by (simp add: OAuthView_get_def GET_get_def split_def do_qq_def http_post_def
        http_get_def qq_token_data_def attempt_def getattr_def Let_def startswith_def)
  show \<open>OAuthView_get
      \<lparr>urlopen_post = (\<lambda>url data. None),
       urlopen_get = (\<lambda>url. Some ''{"errcode": 40029, "errmsg": "invalid code"}''),
       json_loads = map_of
         [(''{"errcode": 40029, "errmsg": "invalid code"}'',
           PDict [(''errcode'', PInt 40029), (''errmsg'', PStr ''invalid code'')])],
       get_initial = (\<lambda>v. add_str v [])\<rparr>
      [(''SECRET_KEY'', ''s3cret''), (''MAMA_CAS_OAUTH_WECHAT_APP_ID'', ''wx1''),
       (''MAMA_CAS_OAUTH_WECHAT_APP_SECRET'', ''wxs3cret'')] ''ST-1''
      \<lparr>scheme = ''https'', http_host = ''cas.example.org'', path = ''/oauth'',
       GET = [(''v'', ''wechat,https://app.example/cb''), (''code'', ''c0de'')]\<rparr>
      \<lparr>users = [], auth_user = None, session_warn = None, tickets = []\<rparr>
    = (Inl KeyError, \<lparr>users = [], auth_user = None, session_warn = None, tickets = []\<rparr>)\<close>
    by (simp add: OAuthView_get_def GET_get_def split_def do_wechat_def
        http_get_def attempt_def getattr_def getattr_strict_def opt_str_def Let_def)
qed

text \<open>
  The authorization URLs of the login page hold the redirect URI that
  \<open>login_redirect_uri\<close> builds from the scheme, host and path of the login request;
  the token requests of \<^verbatim>\<open>do_qq\<close> and \<^verbatim>\<open>do_weibo\<close> build theirs from \<^verbatim>\<open>http://\<close>, the host and
  \<^verbatim>\<open>/oauth\<close>. The two agree for a login page served over plain http at \<^verbatim>\<open>/login\<close>.
\<close>

lemma authorization_urls_embed_redirect_uri:
  assumes "get_context_data settings v = Inr data"
  shows "map_of data ''oauth_qq_url'' = Some
           (''https://graph.qq.com/oauth2.0/authorize?client_id=''
            @ getattr settings ''MAMA_CAS_OAUTH_QQ_APP_ID'' ''''
            @ ''&redirect_uri='' @ login_redirect_uri v ''qq''
            @ ''&response_type=code&state='' @ getattr settings ''SECRET_KEY'' '''')"
    and "map_of data ''oauth_weibo_url'' = Some
           (''https://api.weibo.com/oauth2/authorize?client_id=''
            @ getattr settings ''MAMA_CAS_OAUTH_WEIBO_APP_KEY'' ''''
            @ ''&redirect_uri='' @ login_redirect_uri v ''weibo''
            @ ''&response_type=code&scope=email'')"
  using assms
  by (auto simp: get_context_data_def login_redirect_uri_def split: sum.splits)

lemma redirect_uris_agree_on_plain_http_root:
  assumes "scheme req = ''http''" and "path req = ''/login''"
  shows "map_of (qq_token_data settings code (http_host req) (v_service (LoginView_attrs settings req)))
           ''redirect_uri''
         = Some (PStr (login_redirect_uri (LoginView_attrs settings req) ''qq''))"
  using assms
  by (simp add: qq_token_data_def login_redirect_uri_def LoginView_attrs_def endswith_def)

text \<open>
  Claim C8. What the code does where the claim asks for equal redirect URIs: for a login
  page served at \<^verbatim>\<open>https://cas.example.org/login\<close> the authorization URLs of QQ and Weibo
  hold a redirect URI that starts with \<^verbatim>\<open>https://\<close>, and the token requests of the same
  flow send one that starts with \<^verbatim>\<open>http://\<close>: the two differ.
\<close>

theorem redirect_uri_mismatch_https:
  "login_redirect_uri
      (LoginView_attrs [(''MAMA_CAS_OAUTH_WECHAT_APP_ID'', ''wx1'')]
         \<lparr>scheme = ''https'', http_host = ''cas.example.org'', path = ''/login'',
          GET = [(''service'', ''https://app.example/cb'')]\<rparr>) ''qq''
     = ''https://cas.example.org/oauth?v=qq,https://app.example/cb''
   \<and> (case get_context_data [(''MAMA_CAS_OAUTH_WECHAT_APP_ID'', ''wx1'')]
             (LoginView_attrs [(''MAMA_CAS_OAUTH_WECHAT_APP_ID'', ''wx1'')]
                \<lparr>scheme = ''https'', http_host = ''cas.example.org'', path = ''/login'',
                 GET = [(''service'', ''https://app.example/cb'')]\<rparr>) of
         Inl e \<Rightarrow> None
       | Inr data \<Rightarrow> map_of data ''oauth_qq_url'')
     = Some (''https://graph.qq.com/oauth2.0/authorize?client_id=&redirect_uri=''
             @ ''https://cas.example.org/oauth?v=qq,https://app.example/cb''
             @ ''&response_type=code&state='')
   \<and> map_of (qq_token_data [(''MAMA_CAS_OAUTH_WECHAT_APP_ID'', ''wx1'')] (Some ''c0de'')
               ''cas.example.org'' ''https://app.example/cb'') ''redirect_uri''
     = Some (PStr ''http://cas.example.org/oauth?v=qq,https://app.example/cb'')
   \<and> map_of (weibo_token_data [(''MAMA_CAS_OAUTH_WECHAT_APP_ID'', ''wx1'')] (Some ''c0de'')
               ''cas.example.org'' ''https://app.example/cb'') ''redirect_uri''
     = Some (PStr ''http://cas.example.org/oauth?v=weibo,https://app.example/cb'')
   \<and> login_redirect_uri
      (LoginView_attrs [(''MAMA_CAS_OAUTH_WECHAT_APP_ID'', ''wx1'')]
         \<lparr>scheme = ''https'', http_host = ''cas.example.org'', path = ''/login'',
          GET = [(''service'', ''https://app.example/cb'')]\<rparr>) ''weibo''
     = ''https://cas.example.org/oauth?v=weibo,https://app.example/cb''
   \<and> map_of (qq_token_data [(''MAMA_CAS_OAUTH_WECHAT_APP_ID'', ''wx1'')] (Some ''c0de'')
               ''cas.example.org'' ''https://app.example/cb'') ''redirect_uri''
     \<noteq> Some (PStr (login_redirect_uri
          (LoginView_attrs [(''MAMA_CAS_OAUTH_WECHAT_APP_ID'', ''wx1'')]
             \<lparr>scheme = ''https'', http_host = ''cas.example.org'', path = ''/login'',
              GET = [(''service'', ''https://app.example/cb'')]\<rparr>) ''qq''))"
  by (simp add: login_redirect_uri_def LoginView_attrs_def endswith_def GET_get_def
      get_context_data_def getattr_strict_def getattr_def qq_token_data_def
      weibo_token_data_def)

end
